theory Spec2Isabelle
  imports Main "HOL-Library.Multiset" "HOL-Library.Option_ord"
begin

section \<open>The to-do backend: tasks, the document store and the six route handlers\<close>

text \<open>
  The program is \<^verbatim>\<open>src/backend/index.js\<close>: an Express application whose six route handlers
  forward request data to a Mongoose model \<^verbatim>\<open>Task\<close>. Each handler is embedded as a function
  from the request and the state to the handler's outcome and the new state.

  The Mongoose calls the handlers make (\<^verbatim>\<open>new Task\<close>, \<^verbatim>\<open>save\<close>, \<^verbatim>\<open>find().sort()\<close>,
  \<^verbatim>\<open>findByIdAndUpdate\<close>, \<^verbatim>\<open>findByIdAndDelete\<close>) belong to a library, not to the
  repository. They are modelled on a list of documents, with the library's default options,
  as the handlers observe them:
  \<^item> values are cast to the type of their schema path; a value that cannot be cast raises a
    CastError in a query and a ValidationError in \<^verbatim>\<open>save()\<close>;
  \<^item> \<^verbatim>\<open>save()\<close> validates \<^verbatim>\<open>required\<close>; \<^verbatim>\<open>findByIdAndUpdate\<close> does not validate, and
    drops the keys of the update whose value is \<^verbatim>\<open>undefined\<close> (Mongoose 6 and later);
  \<^item> an id in a route is cast to an ObjectId, which must be written as 24 hexadecimal digits;
  \<^item> a query that matches no document resolves to \<^verbatim>\<open>null\<close>, \<^verbatim>\<open>find\<close> resolves to an array.
\<close>

subsection \<open>Values of a request\<close>

text \<open>
  A request body is the object \<^verbatim>\<open>express.json()\<close> produces. A key that is absent reads as
  \<^verbatim>\<open>undefined\<close>, which is \<open>None\<close> here. Field values are the scalar JSON values, numbers
  being integers.
\<close>

datatype jsval = JNull | JBool bool | JNum int | JStr string

type_synonym jsobj = "string \<rightharpoonup> jsval"

datatype js_error =
    ValidationError
  | CastError
  | MongooseError
  | DuplicateKey
  | StoreUnavailable
  | ReferenceError string

text \<open>
  What a request finds around it: the clock (\<^verbatim>\<open>Date.now()\<close>), whether the driver's command
  reaches the database, and the two JavaScript built-ins the casts rely on, which are taken as
  they are: the decimal rendering of a number and the reading of a non-empty string as a
  date (\<open>None\<close> for an invalid date).
\<close>

record env =
  now :: int
  reachable :: bool
  num_toString :: "int \<Rightarrow> string"
  date_of_string :: "string \<Rightarrow> int option"

subsection \<open>The data model: \<^verbatim>\<open>taskSchema\<close>\<close>

text \<open>
  A stored document. \<open>oid\<close> is the \<^verbatim>\<open>_id\<close> of the document, an ObjectId read as the number
  its 24 hexadecimal digits denote. Dates are milliseconds since the epoch. A path of a
  stored document can hold \<^verbatim>\<open>null\<close> (\<open>None\<close>): \<^verbatim>\<open>findByIdAndUpdate\<close> runs no validators.
\<close>

record task =
  oid :: nat
  title :: "string option"
  description :: "string option"
  dueDate :: "int option"
  dateCreated :: "int option"
  completed :: "bool option"

text \<open>
  The state: the collection in its natural (insertion) order, and the ObjectId generator of
  the server process, modelled as a counter that \<^verbatim>\<open>new ObjectId()\<close> reads and advances.
\<close>

record sys =
  store :: "task list"
  oid_counter :: nat

definition wf_sys :: "sys \<Rightarrow> bool" where
  "wf_sys s \<longleftrightarrow> distinct (map oid (store s)) \<and> list_all (\<lambda>t. oid t < oid_counter s) (store s)"

subsection \<open>Mongoose: casting\<close>

text \<open>
  The casts of the three schema types, on scalar values. \<^verbatim>\<open>null\<close> stays \<^verbatim>\<open>null\<close>. A string
  path takes \<^verbatim>\<open>toString()\<close> of a number or a boolean. A date path takes a number as a
  timestamp, valid up to 8.64e15 milliseconds either side of the epoch, reads the empty
  string as \<^verbatim>\<open>null\<close> and refuses a boolean. A boolean path accepts the two booleans and
  the values \<^verbatim>\<open>'true'\<close>, \<^verbatim>\<open>1\<close>, \<^verbatim>\<open>'1'\<close>, \<^verbatim>\<open>'yes'\<close>, \<^verbatim>\<open>'false'\<close>, \<^verbatim>\<open>0\<close>, \<^verbatim>\<open>'0'\<close>, \<^verbatim>\<open>'no'\<close>.
\<close>

fun castString :: "env \<Rightarrow> jsval \<Rightarrow> js_error + string option" where
  "castString e JNull = Inr None"
| "castString e (JStr s) = Inr (Some s)"
| "castString e (JNum n) = Inr (Some (num_toString e n))"
| "castString e (JBool b) = Inr (Some (if b then ''true'' else ''false''))"

definition max_time :: int where
  "max_time = 8640000000000000"

fun castDate :: "env \<Rightarrow> jsval \<Rightarrow> js_error + int option" where
  "castDate e JNull = Inr None"
| "castDate e (JBool b) = Inl CastError"
| "castDate e (JNum n) = (if - max_time \<le> n \<and> n \<le> max_time then Inr (Some n) else Inl CastError)"
| "castDate e (JStr s) =
     (if s = [] then Inr None
      else case date_of_string e s of None \<Rightarrow> Inl CastError | Some d \<Rightarrow> Inr (Some d))"

fun castBoolean :: "jsval \<Rightarrow> js_error + bool option" where
  "castBoolean JNull = Inr None"
| "castBoolean (JBool b) = Inr (Some b)"
| "castBoolean (JNum n) =
     (if n = 1 then Inr (Some True) else if n = 0 then Inr (Some False) else Inl CastError)"
| "castBoolean (JStr s) =
     (if s \<in> set [''true'', ''1'', ''yes''] then Inr (Some True)
      else if s \<in> set [''false'', ''0'', ''no''] then Inr (Some False)
      else Inl CastError)"

text \<open>An ObjectId is written as 24 hexadecimal digits, in either case.\<close>

definition hex_digit :: "char \<Rightarrow> nat option" where
  "hex_digit c =
     map_of
       [(CHR ''0'', 0), (CHR ''1'', 1), (CHR ''2'', 2), (CHR ''3'', 3), (CHR ''4'', 4),
        (CHR ''5'', 5), (CHR ''6'', 6), (CHR ''7'', 7), (CHR ''8'', 8), (CHR ''9'', 9),
        (CHR ''a'', 10), (CHR ''b'', 11), (CHR ''c'', 12), (CHR ''d'', 13), (CHR ''e'', 14),
        (CHR ''f'', 15), (CHR ''A'', 10), (CHR ''B'', 11), (CHR ''C'', 12), (CHR ''D'', 13),
        (CHR ''E'', 14), (CHR ''F'', 15)] c"

fun hex_to_nat :: "string \<Rightarrow> nat \<Rightarrow> nat option" where
  "hex_to_nat [] acc = Some acc"
| "hex_to_nat (c # cs) acc =
     (case hex_digit c of None \<Rightarrow> None | Some d \<Rightarrow> hex_to_nat cs (16 * acc + d))"

definition castObjectId :: "string \<Rightarrow> nat option" where
  "castObjectId s = (if length s = 24 then hex_to_nat s 0 else None)"

fun castObjectId_val :: "jsval \<Rightarrow> js_error + nat option" where
  "castObjectId_val JNull = Inr None"
| "castObjectId_val (JStr s) = (case castObjectId s of None \<Rightarrow> Inl CastError | Some i \<Rightarrow> Inr (Some i))"
| "castObjectId_val (JNum n) = Inl CastError"
| "castObjectId_val (JBool b) = Inl CastError"

subsection \<open>Mongoose: \<^verbatim>\<open>new Task(obj)\<close> and \<^verbatim>\<open>save()\<close>\<close>

text \<open>
  A document under construction keeps, for every path of the schema, the cast value or the
  cast error; the error is reported when the document is validated. A path whose key is
  \<^verbatim>\<open>undefined\<close> takes the schema's default. Keys outside the schema are dropped.
\<close>

record draft =
  d_oid :: "js_error + nat option"
  d_title :: "js_error + string option"
  d_description :: "js_error + string option"
  d_dueDate :: "js_error + int option"
  d_dateCreated :: "js_error + int option"
  d_completed :: "js_error + bool option"

definition set_path :: "(jsval \<Rightarrow> js_error + 'a option) \<Rightarrow> 'a option \<Rightarrow> jsval option \<Rightarrow> js_error + 'a option" where
  "set_path cast dflt v = (case v of None \<Rightarrow> Inr dflt | Some j \<Rightarrow> cast j)"

definition new_Task :: "env \<Rightarrow> jsobj \<Rightarrow> sys \<Rightarrow> draft \<times> sys" where
  "new_Task e obj s =
     (\<lparr>d_oid = set_path castObjectId_val (Some (oid_counter s)) (obj ''_id''),
       d_title = set_path (castString e) None (obj ''title''),
       d_description = set_path (castString e) None (obj ''description''),
       d_dueDate = set_path (castDate e) None (obj ''dueDate''),
       d_dateCreated = set_path (castDate e) (Some (now e)) (obj ''dateCreated''),
       d_completed = set_path castBoolean (Some False) (obj ''completed'')\<rparr>,
      if obj ''_id'' = None then s\<lparr>oid_counter := Suc (oid_counter s)\<rparr> else s)"

text \<open>
  \<^verbatim>\<open>required: true\<close>: the path must have been cast to a value; a string must also be
  non-empty.
\<close>

definition required :: "js_error + 'a option \<Rightarrow> bool" where
  "required p = (case p of Inr (Some v) \<Rightarrow> True | _ \<Rightarrow> False)"

definition required_string :: "js_error + string option \<Rightarrow> bool" where
  "required_string p = (case p of Inr (Some v) \<Rightarrow> v \<noteq> [] | _ \<Rightarrow> False)"

definition path_val :: "js_error + 'a option \<Rightarrow> 'a option" where
  "path_val p = (case p of Inr v \<Rightarrow> v | Inl x \<Rightarrow> None)"

definition validate :: "draft \<Rightarrow> bool" where
  "validate d \<longleftrightarrow>
     required_string (d_title d) \<and> required_string (d_description d) \<and>
     required (d_dueDate d) \<and> required (d_dateCreated d) \<and> required (d_completed d)"

definition save :: "env \<Rightarrow> draft \<Rightarrow> sys \<Rightarrow> (js_error + task) \<times> sys" where
  "save e d s =
     (if \<not> validate d \<or> (case d_oid d of Inl x \<Rightarrow> True | Inr v \<Rightarrow> False) then (Inl ValidationError, s)
      else case path_val (d_oid d) of
        None \<Rightarrow> (Inl MongooseError, s)
      | Some i \<Rightarrow>
          if \<not> reachable e then (Inl StoreUnavailable, s)
          else if i \<in> set (map oid (store s)) then (Inl DuplicateKey, s)
          else
            (let t = \<lparr>oid = i, title = path_val (d_title d), description = path_val (d_description d),
                      dueDate = path_val (d_dueDate d), dateCreated = path_val (d_dateCreated d),
                      completed = path_val (d_completed d)\<rparr>
             in (Inr t, s\<lparr>store := store s @ [t]\<rparr>)))"

subsection \<open>Mongoose: queries by \<^verbatim>\<open>_id\<close>\<close>

fun findById :: "nat \<Rightarrow> task list \<Rightarrow> task option" where
  "findById i [] = None"
| "findById i (t # ts) = (if oid t = i then Some t else findById i ts)"

fun replaceById :: "nat \<Rightarrow> task \<Rightarrow> task list \<Rightarrow> task list" where
  "replaceById i t' [] = []"
| "replaceById i t' (t # ts) = (if oid t = i then t' # ts else t # replaceById i t' ts)"

fun removeById :: "nat \<Rightarrow> task list \<Rightarrow> task list" where
  "removeById i [] = []"
| "removeById i (t # ts) = (if oid t = i then ts else t # removeById i ts)"

text \<open>
  The update document becomes a \<^verbatim>\<open>$set\<close> of the schema paths it defines: keys whose value
  is \<^verbatim>\<open>undefined\<close> are stripped (Mongoose 6 and later), the others are cast, without
  validation. The handlers never pass \<^verbatim>\<open>_id\<close>, which the database refuses to modify; it
  is not part of the update model.
\<close>

definition set_field :: "(jsval \<Rightarrow> js_error + 'a option) \<Rightarrow> jsval option \<Rightarrow> (('a option \<Rightarrow> 'a option) \<Rightarrow> task \<Rightarrow> task) \<Rightarrow> js_error + (task \<Rightarrow> task)" where
  "set_field cast v upd =
     (case v of
        None \<Rightarrow> Inr (\<lambda>t. t)
      | Some j \<Rightarrow> (case cast j of Inl x \<Rightarrow> Inl x | Inr w \<Rightarrow> Inr (upd (\<lambda>_. w))))"

definition then_set :: "js_error + (task \<Rightarrow> task) \<Rightarrow> js_error + (task \<Rightarrow> task) \<Rightarrow> js_error + (task \<Rightarrow> task)" where
  "then_set a b =
     (case a of Inl x \<Rightarrow> Inl x | Inr f \<Rightarrow> (case b of Inl x \<Rightarrow> Inl x | Inr g \<Rightarrow> Inr (\<lambda>t. g (f t))))"

definition castUpdate :: "env \<Rightarrow> jsobj \<Rightarrow> js_error + (task \<Rightarrow> task)" where
  "castUpdate e upd =
     then_set (set_field (castString e) (upd ''title'') title_update)
    (then_set (set_field (castString e) (upd ''description'') description_update)
    (then_set (set_field (castDate e) (upd ''dueDate'') dueDate_update)
    (then_set (set_field (castDate e) (upd ''dateCreated'') dateCreated_update)
              (set_field castBoolean (upd ''completed'') completed_update))))"

text \<open>\<^verbatim>\<open>Task.findByIdAndUpdate(id, update, { new: true })\<close>: the document after the update, or \<^verbatim>\<open>null\<close>.\<close>

definition findByIdAndUpdate :: "env \<Rightarrow> string \<Rightarrow> jsobj \<Rightarrow> sys \<Rightarrow> (js_error + task option) \<times> sys" where
  "findByIdAndUpdate e ident upd s =
     (case castObjectId ident of
        None \<Rightarrow> (Inl CastError, s)
      | Some i \<Rightarrow>
          (case castUpdate e upd of
             Inl x \<Rightarrow> (Inl x, s)
           | Inr f \<Rightarrow>
               if \<not> reachable e then (Inl StoreUnavailable, s)
               else (case findById i (store s) of
                       None \<Rightarrow> (Inr None, s)
                     | Some t \<Rightarrow> (Inr (Some (f t)), s\<lparr>store := replaceById i (f t) (store s)\<rparr>))))"

text \<open>\<^verbatim>\<open>Task.findByIdAndDelete(id)\<close>: the document as it was, or \<^verbatim>\<open>null\<close>.\<close>

definition findByIdAndDelete :: "env \<Rightarrow> string \<Rightarrow> sys \<Rightarrow> (js_error + task option) \<times> sys" where
  "findByIdAndDelete e ident s =
     (case castObjectId ident of
        None \<Rightarrow> (Inl CastError, s)
      | Some i \<Rightarrow>
          if \<not> reachable e then (Inl StoreUnavailable, s)
          else (case findById i (store s) of
                  None \<Rightarrow> (Inr None, s)
                | Some t \<Rightarrow> (Inr (Some t), s\<lparr>store := removeById i (store s)\<rparr>)))"

subsection \<open>Mongoose: \<^verbatim>\<open>Task.find({}).sort(sortOption)\<close>\<close>

text \<open>
  The handler builds one of three sort options: \<^verbatim>\<open>{}\<close>, \<^verbatim>\<open>{ dueDate: 1 }\<close> and
  \<^verbatim>\<open>{ dateCreated: 1 }\<close>. An ascending sort puts \<^verbatim>\<open>null\<close> first, which is the order of
  \<open>option\<close>; documents with equal keys keep the order of the collection, as the scan of
  the ascending index the schema declares returns them.
\<close>

datatype sortOption = NoSort | DueDateAsc | DateCreatedAsc

fun sort_tasks :: "sortOption \<Rightarrow> task list \<Rightarrow> task list" where
  "sort_tasks NoSort ts = ts"
| "sort_tasks DueDateAsc ts = sort_key dueDate ts"
| "sort_tasks DateCreatedAsc ts = sort_key dateCreated ts"

definition find_sort :: "env \<Rightarrow> sortOption \<Rightarrow> sys \<Rightarrow> js_error + task list" where
  "find_sort e opt s = (if \<not> reachable e then Inl StoreUnavailable else Inr (sort_tasks opt (store s)))"

subsection \<open>Responses and the \<^verbatim>\<open>catch\<close> clauses\<close>

datatype payload = Tasks "task list" | TaskMessage task string | Message string

record response =
  status :: nat
  json :: payload

text \<open>
  A handler either sends a response or its promise is rejected with an exception and the
  handler sends nothing.
\<close>

datatype outcome = Sent response | Rejected js_error

text \<open>The names declared at the top level of the module, and the names Node.js provides.\<close>

definition module_scope :: "string list" where
  "module_scope = [''express'', ''cors'', ''mongoose'', ''app'', ''port'', ''taskSchema'', ''Task'']"

definition node_globals :: "string list" where
  "node_globals = [''require'', ''module'', ''exports'', ''console'', ''process'', ''globalThis'',
                   ''Date'', ''Object'', ''String'', ''Number'', ''Boolean'', ''Error'', ''Promise'']"

text \<open>
  Every \<^verbatim>\<open>catch\<close> clause of the file has the shape
  \<^verbatim>\<open>catch (binder) { console.error("Error:", ref); res.status(500).json({ message: msg }); }\<close>.
  Its first statement reads the identifier \<open>ref\<close>; reading an identifier that no enclosing
  scope declares throws a ReferenceError, and the statements after it do not run.
\<close>

definition catch_clause :: "string \<Rightarrow> string \<Rightarrow> string \<Rightarrow> outcome" where
  "catch_clause binder ref msg =
     (if ref \<in> set (binder # module_scope @ node_globals)
      then Sent \<lparr>status = 500, json = Message msg\<rparr>
      else Rejected (ReferenceError ref))"

text \<open>
  The operand of \<^verbatim>\<open>!\<close> in the handlers is the result of a query. For a query by \<^verbatim>\<open>_id\<close>
  it is \<^verbatim>\<open>null\<close> (falsy, \<open>None\<close>) or a document (truthy), which the handlers below
  distinguish by cases. For \<^verbatim>\<open>find\<close> it is an array, and every array, also the empty
  one, is truthy.
\<close>

definition not_array :: "task list \<Rightarrow> bool" where
  "not_array ts = False"

subsection \<open>The route handlers\<close>

text \<open>\<^verbatim>\<open>GET /api/tasks\<close>; \<open>sortBy\<close> is \<^verbatim>\<open>req.query.sortBy\<close>, a string when present.\<close>

definition get_tasks :: "env \<Rightarrow> string option \<Rightarrow> sys \<Rightarrow> outcome \<times> sys" where
  "get_tasks e sortBy s =
     (let sortOption =
            (if sortBy = Some ''dueDate'' then DueDateAsc
             else if sortBy = Some ''dateCreated'' then DateCreatedAsc
             else NoSort)
      in case find_sort e sortOption s of
           Inl x \<Rightarrow> (catch_clause ''err'' ''err'' ''Error grabbing tasks!'', s)
         | Inr tasks \<Rightarrow>
             if not_array tasks then (Sent \<lparr>status = 404, json = Message ''Tasks not found''\<rparr>, s)
             else (Sent \<lparr>status = 200, json = Tasks tasks\<rparr>, s))"

text \<open>\<^verbatim>\<open>POST /api/tasks/todo\<close>\<close>

definition post_todo :: "env \<Rightarrow> jsobj \<Rightarrow> sys \<Rightarrow> outcome \<times> sys" where
  "post_todo e body s =
     (let taskData = restrict_map body {''title'', ''description'', ''dueDate''};
          (createTask, s1) = new_Task e taskData s;
          (r, s2) = save e createTask s1
      in case r of
           Inr newTask \<Rightarrow> (Sent \<lparr>status = 200, json = TaskMessage newTask ''Task created successfully''\<rparr>, s2)
         | Inl x \<Rightarrow> (catch_clause ''error'' ''err'' ''Error creating tasks!'', s2))"

text \<open>\<^verbatim>\<open>PATCH /api/tasks/complete/:id\<close>\<close>

definition patch_complete :: "env \<Rightarrow> string \<Rightarrow> jsobj \<Rightarrow> sys \<Rightarrow> outcome \<times> sys" where
  "patch_complete e taskId body s =
     (case findByIdAndUpdate e taskId (restrict_map body {''completed''}) s of
        (Inl x, s1) \<Rightarrow> (catch_clause ''error'' ''error'' ''Error completing the task!'', s1)
      | (Inr None, s1) \<Rightarrow> (Sent \<lparr>status = 404, json = Message ''Task not found''\<rparr>, s1)
      | (Inr (Some completedTask), s1) \<Rightarrow>
          (Sent \<lparr>status = 200, json = TaskMessage completedTask (''Task set to '' @ [CHR 0x27] @ ''complete.'')\<rparr>, s1))"

text \<open>\<^verbatim>\<open>PATCH /api/tasks/notComplete/:id\<close>\<close>

definition patch_notComplete :: "env \<Rightarrow> string \<Rightarrow> jsobj \<Rightarrow> sys \<Rightarrow> outcome \<times> sys" where
  "patch_notComplete e taskId body s =
     (case findByIdAndUpdate e taskId (restrict_map body {''completed''}) s of
        (Inl x, s1) \<Rightarrow> (catch_clause ''error'' ''error'' ''Error setting task to not complete!'', s1)
      | (Inr None, s1) \<Rightarrow> (Sent \<lparr>status = 404, json = Message ''Task not found''\<rparr>, s1)
      | (Inr (Some taskNotComplete), s1) \<Rightarrow>
          (Sent \<lparr>status = 200, json = TaskMessage taskNotComplete (''Task set to '' @ [CHR 0x27] @ '' not complete.'')\<rparr>, s1))"

text \<open>\<^verbatim>\<open>DELETE /api/tasks/delete/:id\<close>\<close>

definition delete_task :: "env \<Rightarrow> string \<Rightarrow> sys \<Rightarrow> outcome \<times> sys" where
  "delete_task e taskId s =
     (case findByIdAndDelete e taskId s of
        (Inl x, s1) \<Rightarrow> (catch_clause ''error'' ''error'' ''Error deleting the task!'', s1)
      | (Inr None, s1) \<Rightarrow> (Sent \<lparr>status = 404, json = Message ''Task not found!''\<rparr>, s1)
      | (Inr (Some deletedTask), s1) \<Rightarrow>
          (Sent \<lparr>status = 200, json = TaskMessage deletedTask ''Task deleted successfully!''\<rparr>, s1))"

text \<open>\<^verbatim>\<open>PUT /api/tasks/update/:id\<close>\<close>

definition put_update :: "env \<Rightarrow> string \<Rightarrow> jsobj \<Rightarrow> sys \<Rightarrow> outcome \<times> sys" where
  "put_update e taskId body s =
     (let taskData = restrict_map body {''title'', ''description'', ''dueDate''}
      in case findByIdAndUpdate e taskId taskData s of
           (Inl x, s1) \<Rightarrow> (catch_clause ''error'' ''error'' ''Error updating the task!'', s1)
         | (Inr None, s1) \<Rightarrow> (Sent \<lparr>status = 404, json = Message ''Task not found!''\<rparr>, s1)
         | (Inr (Some updatedTask), s1) \<Rightarrow>
             (Sent \<lparr>status = 200, json = TaskMessage updatedTask ''Task updated successfully!''\<rparr>, s1))"

text \<open>Reading an outcome.\<close>

definition status_of :: "outcome \<Rightarrow> nat option" where
  "status_of out = (case out of Sent r \<Rightarrow> Some (status r) | Rejected x \<Rightarrow> None)"

definition task_of :: "outcome \<Rightarrow> task option" where
  "task_of out =
     (case out of
        Sent r \<Rightarrow> (case json r of TaskMessage t m \<Rightarrow> Some t | _ \<Rightarrow> None)
      | Rejected x \<Rightarrow> None)"

subsection \<open>What a create request yields, and when\<close>

text \<open>
  Two abbreviations for the statements below, both proved against the handler in
  \<open>post_todo_eq\<close>: the document a create request builds, and the condition under which
  \<^verbatim>\<open>save()\<close> resolves. \<open>castable\<close> says that casting an update document raises no error.
\<close>

definition created :: "env \<Rightarrow> jsobj \<Rightarrow> sys \<Rightarrow> task" where
  "created e body s =
     \<lparr>oid = oid_counter s,
      title = path_val (set_path (castString e) None (body ''title'')),
      description = path_val (set_path (castString e) None (body ''description'')),
      dueDate = path_val (set_path (castDate e) None (body ''dueDate'')),
      dateCreated = Some (now e), completed = Some False\<rparr>"

definition creatable :: "env \<Rightarrow> jsobj \<Rightarrow> sys \<Rightarrow> bool" where
  "creatable e body s \<longleftrightarrow>
     required_string (set_path (castString e) None (body ''title'')) \<and>
     required_string (set_path (castString e) None (body ''description'')) \<and>
     required (set_path (castDate e) None (body ''dueDate'')) \<and>
     reachable e \<and> oid_counter s \<notin> set (map oid (store s))"

definition castable :: "env \<Rightarrow> jsobj \<Rightarrow> bool" where
  "castable e upd = (case castUpdate e upd of Inl x \<Rightarrow> False | Inr f \<Rightarrow> True)"

subsection \<open>Example data\<close>

text \<open>
  A clock reading, a reachable database, numbers rendered in decimal and a date reader that
  knows one date; a body with the three fields of the schema that a client supplies; the
  document that body creates in an empty collection.
\<close>

function dec_nat :: "nat \<Rightarrow> string" where
  "dec_nat n = (if n < 10 then [char_of (48 + n)] else dec_nat (n div 10) @ [char_of (48 + n mod 10)])"
  by pat_completeness auto
termination
  by (relation "measure (\<lambda>n. n)") auto

declare dec_nat.simps [simp del]

definition dec_int :: "int \<Rightarrow> string" where
  "dec_int n = (if n < 0 then CHR ''-'' # dec_nat (nat (- n)) else dec_nat (nat n))"

definition example_env :: env where
  "example_env =
     \<lparr>now = 1735000000000, reachable = True, num_toString = dec_int,
      date_of_string = (\<lambda>s. if s = ''2025-01-01'' then Some 1735689600000 else None)\<rparr>"

definition example_body :: jsobj where
  "example_body = [''title'' \<mapsto> JStr ''A'', ''description'' \<mapsto> JStr ''B'', ''dueDate'' \<mapsto> JStr ''2025-01-01'']"

definition example_task :: task where
  "example_task =
     \<lparr>oid = 0, title = Some ''A'', description = Some ''B'', dueDate = Some 1735689600000,
      dateCreated = Some 1735000000000, completed = Some False\<rparr>"

definition example_sys :: sys where
  "example_sys = \<lparr>store = [example_task], oid_counter = 1\<rparr>"

definition empty_sys :: sys where
  "empty_sys = \<lparr>store = [], oid_counter = 0\<rparr>"

section \<open>Properties\<close>

subsection \<open>The collection as a list\<close>

lemma findById_None_iff: "findById i ts = None \<longleftrightarrow> i \<notin> set (map oid ts)"
  by (induction ts) auto

lemma findById_Some_oid: "findById i ts = Some t \<Longrightarrow> oid t = i \<and> t \<in> set ts"
  by (induction ts) (auto split: if_splits)

lemma replaceById_same: "findById i ts = Some t \<Longrightarrow> replaceById i t ts = ts"
  by (induction ts) (auto split: if_splits)

lemma map_replaceById: "findById i ts = Some t \<Longrightarrow> g t' = g t \<Longrightarrow> map g (replaceById i t' ts) = map g ts"
  by (induction ts) (auto split: if_splits)

lemma findById_replaceById: "findById i ts = Some t \<Longrightarrow> oid t' = i \<Longrightarrow> findById j (replaceById i t' ts) = (if j = i then Some t' else findById j ts)"
  by (induction ts) (auto split: if_splits)

lemma findById_removeById_other: "j \<noteq> i \<Longrightarrow> findById j (removeById i ts) = findById j ts"
  by (induction ts) auto

lemma findById_removeById_same: "distinct (map oid ts) \<Longrightarrow> findById i (removeById i ts) = None"
  by (induction ts) (auto simp: findById_None_iff)

lemma mset_removeById: "findById i ts = Some t \<Longrightarrow> mset ts = add_mset t (mset (removeById i ts))"
  by (induction ts) (auto split: if_splits)

subsection \<open>The \<^verbatim>\<open>catch\<close> clauses and the objects the handlers build\<close>

lemma catch_err_unbound: "catch_clause ''error'' ''err'' msg = Rejected (ReferenceError ''err'')"
  by (simp add: catch_clause_def module_scope_def node_globals_def)

lemma catch_error_bound: "catch_clause ''error'' ''error'' msg = Sent \<lparr>status = 500, json = Message msg\<rparr>"
  by (simp add: catch_clause_def)

lemma catch_err_bound: "catch_clause ''err'' ''err'' msg = Sent \<lparr>status = 500, json = Message msg\<rparr>"
  by (simp add: catch_clause_def)

lemma taskData_paths:
  "restrict_map body {''title'', ''description'', ''dueDate''} ''title'' = body ''title''"
  "restrict_map body {''title'', ''description'', ''dueDate''} ''description'' = body ''description''"
  "restrict_map body {''title'', ''description'', ''dueDate''} ''dueDate'' = body ''dueDate''"
  "restrict_map body {''title'', ''description'', ''dueDate''} ''_id'' = None"
  "restrict_map body {''title'', ''description'', ''dueDate''} ''dateCreated'' = None"
  "restrict_map body {''title'', ''description'', ''dueDate''} ''completed'' = None"
  by (simp_all add: restrict_map_def)

lemma completed_paths:
  "restrict_map body {''completed''} ''title'' = None"
  "restrict_map body {''completed''} ''description'' = None"
  "restrict_map body {''completed''} ''dueDate'' = None"
  "restrict_map body {''completed''} ''dateCreated'' = None"
  "restrict_map body {''completed''} ''completed'' = body ''completed''"
  by (simp_all add: restrict_map_def)

lemma post_todo_eq:
  "post_todo e body s =
     (if creatable e body s
      then (Sent \<lparr>status = 200, json = TaskMessage (created e body s) ''Task created successfully''\<rparr>,
            \<lparr>store = store s @ [created e body s], oid_counter = Suc (oid_counter s)\<rparr>)
      else (Rejected (ReferenceError ''err''), s\<lparr>oid_counter := Suc (oid_counter s)\<rparr>))"
  by (simp add: post_todo_def new_Task_def save_def Let_def taskData_paths validate_def
      creatable_def created_def catch_err_unbound set_path_def [of _ _ None] required_def path_val_def)

lemma castUpdate_completed:
  "castUpdate e (restrict_map body {''completed''}) =
     (case body ''completed'' of
        None \<Rightarrow> Inr (\<lambda>t. t)
      | Some j \<Rightarrow> (case castBoolean j of Inl x \<Rightarrow> Inl x | Inr w \<Rightarrow> Inr (\<lambda>t. t\<lparr>completed := w\<rparr>)))"
  by (simp add: castUpdate_def completed_paths set_field_def then_set_def split: option.splits sum.splits)

lemma castUpdate_taskData_frame:
  assumes "castUpdate e (restrict_map body {''title'', ''description'', ''dueDate''}) = Inr f"
  shows "oid (f t) = oid t \<and> dateCreated (f t) = dateCreated t \<and> completed (f t) = completed t"
  using assms
  by (auto simp: castUpdate_def taskData_paths set_field_def then_set_def split: option.splits sum.splits)

lemma castUpdate_taskData_typed:
  assumes "body ''title'' = Some (JStr ti)" and "body ''description'' = Some (JStr de)"
    and "body ''dueDate'' = Some dv" and "castDate e dv = Inr (Some d)"
  shows "castUpdate e (restrict_map body {''title'', ''description'', ''dueDate''}) =
           Inr (\<lambda>t. t\<lparr>title := Some ti, description := Some de, dueDate := Some d\<rparr>)"
  using assms
  by (simp add: castUpdate_def taskData_paths set_field_def then_set_def)

lemma findByIdAndUpdate_store_frame:
  assumes "\<And>f t. castUpdate e upd = Inr f \<Longrightarrow> g (f t) = g t"
  shows "map g (store (snd (findByIdAndUpdate e ident upd s))) = map g (store s)"
  using assms
  by (auto simp: findByIdAndUpdate_def map_replaceById split: option.splits sum.splits)

lemma put_update_snd:
  "snd (put_update e ident body s) =
     snd (findByIdAndUpdate e ident (restrict_map body {''title'', ''description'', ''dueDate''}) s)"
  by (simp add: put_update_def Let_def split: prod.splits sum.splits option.splits)

lemma post_todo_Sent:
  assumes "post_todo e body s = (Sent r, s')"
  shows "creatable e body s \<and>
         r = \<lparr>status = 200, json = TaskMessage (created e body s) ''Task created successfully''\<rparr> \<and>
         s' = \<lparr>store = store s @ [created e body s], oid_counter = Suc (oid_counter s)\<rparr>"
  using assms by (simp add: post_todo_eq split: if_splits)

lemma wf_sys_fresh: "wf_sys s \<Longrightarrow> oid_counter s \<notin> set (map oid (store s))"
  by (auto simp: wf_sys_def list_all_iff)

lemma wf_sys_created:
  "wf_sys s \<Longrightarrow> wf_sys \<lparr>store = store s @ [created e body s], oid_counter = Suc (oid_counter s)\<rparr>"
  by (auto simp: wf_sys_def list_all_iff created_def less_Suc_eq)

lemma created_fields:
  "oid (created e body s) = oid_counter s"
  "dateCreated (created e body s) = Some (now e)"
  "completed (created e body s) = Some False"
  by (simp_all add: created_def)

lemma creatable_populated:
  assumes "creatable e body s"
  shows "title (created e body s) \<notin> {None, Some []}"
    and "description (created e body s) \<notin> {None, Some []}"
    and "dueDate (created e body s) \<noteq> None"
  using assms
  by (auto simp: creatable_def created_def required_string_def required_def path_val_def
      split: sum.splits option.splits)

lemma created_typed:
  "body ''title'' = Some (JStr ti) \<Longrightarrow> title (created e body s) = Some ti"
  "body ''description'' = Some (JStr de) \<Longrightarrow> description (created e body s) = Some de"
  by (simp_all add: created_def set_path_def path_val_def)

lemma created_dueDate:
  "creatable e body s \<Longrightarrow> body ''dueDate'' = Some dv \<Longrightarrow> castDate e dv = Inr (dueDate (created e body s))"
  by (auto simp: creatable_def created_def set_path_def path_val_def required_def
      split: sum.splits option.splits)

lemma post_example_body:
  assumes "oid_counter s \<notin> set (map oid (store s))"
  shows "post_todo (example_env\<lparr>now := n\<rparr>) example_body s =
     (Sent \<lparr>status = 200,
            json = TaskMessage (example_task\<lparr>oid := oid_counter s, dateCreated := Some n\<rparr>) ''Task created successfully''\<rparr>,
      \<lparr>store = store s @ [example_task\<lparr>oid := oid_counter s, dateCreated := Some n\<rparr>],
       oid_counter = Suc (oid_counter s)\<rparr>)"
proof -
  have c: "creatable (example_env\<lparr>now := n\<rparr>) example_body s"
    using assms
    by (simp add: creatable_def example_env_def example_body_def set_path_def
        required_string_def required_def)
  have t: "created (example_env\<lparr>now := n\<rparr>) example_body s =
             example_task\<lparr>oid := oid_counter s, dateCreated := Some n\<rparr>"
    by (simp add: created_def example_env_def example_body_def set_path_def
        path_val_def example_task_def)
  show ?thesis
    using c t by (simp add: post_todo_eq)
qed

lemma patch_complete_absent:
  assumes "\<forall>i. castObjectId ident = Some i \<longrightarrow> findById i (store s) = None"
  shows "snd (patch_complete e ident body s) = s"
  using assms
  by (auto simp: patch_complete_def findByIdAndUpdate_def split: option.splits sum.splits)

lemma patch_notComplete_absent:
  assumes "\<forall>i. castObjectId ident = Some i \<longrightarrow> findById i (store s) = None"
  shows "snd (patch_notComplete e ident body s) = s"
  using assms
  by (auto simp: patch_notComplete_def findByIdAndUpdate_def split: option.splits sum.splits)

lemma put_update_absent:
  assumes "\<forall>i. castObjectId ident = Some i \<longrightarrow> findById i (store s) = None"
  shows "snd (put_update e ident body s) = s"
  using assms
  by (auto simp: put_update_def findByIdAndUpdate_def split: option.splits sum.splits)

lemma delete_task_absent:
  assumes "\<forall>i. castObjectId ident = Some i \<longrightarrow> findById i (store s) = None"
  shows "snd (delete_task e ident s) = s"
  using assms
  by (auto simp: delete_task_def findByIdAndDelete_def split: option.splits sum.splits)

lemma delete_task_Sent_200:
  assumes "delete_task e ident s0 = (Sent r, s)" and "status r = 200"
  shows "\<exists>i. castObjectId ident = Some i \<and> store s = removeById i (store s0)"
  using assms
  by (auto simp: delete_task_def findByIdAndDelete_def catch_error_bound
      split: option.splits sum.splits if_splits)

lemma castString_cong: "num_toString e1 = num_toString e2 \<Longrightarrow> castString e1 j = castString e2 j"
  by (cases j) simp_all

lemma castDate_cong: "date_of_string e1 = date_of_string e2 \<Longrightarrow> castDate e1 j = castDate e2 j"
  by (cases j) simp_all

subsection \<open>The invariant: ids are distinct and below the generator\<close>

lemma castUpdate_oid: "castUpdate e upd = Inr f \<Longrightarrow> oid (f t) = oid t"
  by (auto simp: castUpdate_def set_field_def then_set_def split: option.splits sum.splits)

lemma set_removeById: "set (removeById i ts) \<subseteq> set ts"
  by (induction ts) auto

lemma distinct_removeById: "distinct (map oid ts) \<Longrightarrow> distinct (map oid (removeById i ts))"
proof (induction ts)
  case Nil
  then show ?case by simp
next
  case (Cons t ts)
  have "oid ` set (removeById i ts) \<subseteq> oid ` set ts"
    using set_removeById [of i ts] by blast
  with Cons show ?case by auto
qed

lemma wf_sys_ids:
  "wf_sys s \<longleftrightarrow> distinct (map oid (store s)) \<and> (\<forall>i\<in>set (map oid (store s)). i < oid_counter s)"
  by (auto simp: wf_sys_def list_all_iff)

lemma wf_sys_findByIdAndUpdate:
  assumes "wf_sys s"
  shows "wf_sys (snd (findByIdAndUpdate e ident upd s))"
proof -
  let ?s' = "snd (findByIdAndUpdate e ident upd s)"
  have ids: "map oid (store ?s') = map oid (store s)"
    by (rule findByIdAndUpdate_store_frame) (rule castUpdate_oid)
  have cnt: "oid_counter ?s' = oid_counter s"
    by (simp add: findByIdAndUpdate_def split: option.splits sum.splits)
  show ?thesis
    using assms unfolding wf_sys_ids ids cnt .
qed

lemma wf_sys_findByIdAndDelete:
  assumes "wf_sys s"
  shows "wf_sys (snd (findByIdAndDelete e ident s))"
  using assms set_removeById
  by (fastforce simp: findByIdAndDelete_def wf_sys_def distinct_removeById list_all_iff
      split: option.splits)

lemma wf_sys_handlers:
  assumes "wf_sys s"
  shows "wf_sys (snd (get_tasks e sortBy s))"
    and "wf_sys (snd (post_todo e body s))"
    and "wf_sys (snd (patch_complete e ident body s))"
    and "wf_sys (snd (patch_notComplete e ident body s))"
    and "wf_sys (snd (delete_task e ident s))"
    and "wf_sys (snd (put_update e ident body s))"
proof -
  show "wf_sys (snd (get_tasks e sortBy s))"
    using assms by (simp add: get_tasks_def Let_def split: sum.splits)
  show "wf_sys (snd (post_todo e body s))"
    using assms wf_sys_created [OF assms, of e body]
    by (auto simp: post_todo_eq wf_sys_def list_all_iff less_Suc_eq)
  have u: "snd (patch_complete e ident body s) = snd (findByIdAndUpdate e ident (restrict_map body {''completed''}) s)"
    "snd (patch_notComplete e ident body s) = snd (findByIdAndUpdate e ident (restrict_map body {''completed''}) s)"
    by (simp_all add: patch_complete_def patch_notComplete_def split: prod.splits sum.splits option.splits)
  show "wf_sys (snd (patch_complete e ident body s))" "wf_sys (snd (patch_notComplete e ident body s))"
    unfolding u using assms by (rule wf_sys_findByIdAndUpdate)+
  have d: "snd (delete_task e ident s) = snd (findByIdAndDelete e ident s)"
    by (simp add: delete_task_def split: prod.splits sum.splits option.splits)
  show "wf_sys (snd (delete_task e ident s))"
    unfolding d using assms by (rule wf_sys_findByIdAndDelete)
  show "wf_sys (snd (put_update e ident body s))"
    unfolding put_update_snd using assms by (rule wf_sys_findByIdAndUpdate)
qed

subsection \<open>The claims\<close>

text \<open>
  Claim C1. A create request in which title, description or dueDate is absent, \<^verbatim>\<open>null\<close> or
  the empty string stores no document; the claim adds that the caller receives a 500
  response with a message. The theorem shows what the handler does instead: \<^verbatim>\<open>save()\<close>
  rejects, the \<^verbatim>\<open>catch (error)\<close> clause reads the undeclared identifier \<^verbatim>\<open>err\<close>, and the
  handler ends with a ReferenceError before \<^verbatim>\<open>res.status(500)\<close> runs: no response is sent.
\<close>

theorem post_todo_invalid_no_response:
  assumes "body ''title'' \<in> {None, Some JNull, Some (JStr [])} \<or>
           body ''description'' \<in> {None, Some JNull, Some (JStr [])} \<or>
           body ''dueDate'' \<in> {None, Some JNull, Some (JStr [])}"
  shows "fst (post_todo e body s) = Rejected (ReferenceError ''err'') \<and>
         status_of (fst (post_todo e body s)) = None \<and>
         store (snd (post_todo e body s)) = store s"
proof -
  have "\<not> creatable e body s"
    using assms by (auto simp: creatable_def set_path_def required_def required_string_def)
  then show ?thesis
    by (simp add: post_todo_eq status_of_def)
qed

theorem post_todo_invalid_no_response_witness:
  "[''description'' \<mapsto> JStr ''B'', ''dueDate'' \<mapsto> JStr ''2025-01-01''] ''title'' = None \<and>
   fst (post_todo example_env [''description'' \<mapsto> JStr ''B'', ''dueDate'' \<mapsto> JStr ''2025-01-01''] empty_sys) =
     Rejected (ReferenceError ''err'') \<and>
   store (snd (post_todo example_env [''description'' \<mapsto> JStr ''B'', ''dueDate'' \<mapsto> JStr ''2025-01-01''] empty_sys)) = []"
  using post_todo_invalid_no_response
    [of "[''description'' \<mapsto> JStr ''B'', ''dueDate'' \<mapsto> JStr ''2025-01-01'']" example_env empty_sys]
  by (simp add: empty_sys_def)

text \<open>
  Claim C2. An update request never changes the \<open>oid\<close>, \<open>dateCreated\<close> or \<open>completed\<close> of
  any stored document. For an existing task and a body that gives the title and the
  description as strings and a due date that casts to a date, it answers 200 with the task
  in which exactly these three fields are replaced, which is also what the id finds in the
  collection afterwards, all other documents being as before.
\<close>

theorem put_update_replaces_three_fields:
  "map oid (store (snd (put_update e ident body s))) = map oid (store s) \<and>
   map dateCreated (store (snd (put_update e ident body s))) = map dateCreated (store s) \<and>
   map completed (store (snd (put_update e ident body s))) = map completed (store s) \<and>
   (reachable e \<and> castObjectId ident = Some i \<and> findById i (store s) = Some t \<and>
    body ''title'' = Some (JStr ti) \<and> body ''description'' = Some (JStr de) \<and>
    body ''dueDate'' = Some dv \<and> castDate e dv = Inr (Some d) \<longrightarrow>
      (let t' = t\<lparr>title := Some ti, description := Some de, dueDate := Some d\<rparr>;
           s' = snd (put_update e ident body s)
       in put_update e ident body s =
            (Sent \<lparr>status = 200, json = TaskMessage t' ''Task updated successfully!''\<rparr>,
             s\<lparr>store := replaceById i t' (store s)\<rparr>) \<and>
          findById i (store s') = Some t' \<and>
          (\<forall>j. j \<noteq> i \<longrightarrow> findById j (store s') = findById j (store s)) \<and>
          oid t' = oid t \<and> dateCreated t' = dateCreated t \<and> completed t' = completed t))"
proof -
  let ?td = "restrict_map body {''title'', ''description'', ''dueDate''}"
  have frame: "map g (store (snd (put_update e ident body s))) = map g (store s)"
    if "\<And>f t. castUpdate e ?td = Inr f \<Longrightarrow> g (f t) = g t" for g :: "task \<Rightarrow> 'b"
    unfolding put_update_snd using that by (rule findByIdAndUpdate_store_frame)
  have f1: "map oid (store (snd (put_update e ident body s))) = map oid (store s)"
    by (rule frame) (simp add: castUpdate_taskData_frame)
  have f2: "map dateCreated (store (snd (put_update e ident body s))) = map dateCreated (store s)"
    by (rule frame) (simp add: castUpdate_taskData_frame)
  have f3: "map completed (store (snd (put_update e ident body s))) = map completed (store s)"
    by (rule frame) (simp add: castUpdate_taskData_frame)
  have typed: "put_update e ident body s =
            (Sent \<lparr>status = 200, json = TaskMessage (t\<lparr>title := Some ti, description := Some de, dueDate := Some d\<rparr>) ''Task updated successfully!''\<rparr>,
             s\<lparr>store := replaceById i (t\<lparr>title := Some ti, description := Some de, dueDate := Some d\<rparr>) (store s)\<rparr>)"
    if "reachable e" "castObjectId ident = Some i" "findById i (store s) = Some t"
      "body ''title'' = Some (JStr ti)" "body ''description'' = Some (JStr de)"
      "body ''dueDate'' = Some dv" "castDate e dv = Inr (Some d)"
    using that by (simp add: put_update_def findByIdAndUpdate_def castUpdate_taskData_typed)
  have look: "findById j (replaceById i (t\<lparr>title := Some ti, description := Some de, dueDate := Some d\<rparr>) (store s)) =
      (if j = i then Some (t\<lparr>title := Some ti, description := Some de, dueDate := Some d\<rparr>) else findById j (store s))"
    if "findById i (store s) = Some t" for j
    using that findById_Some_oid [OF that] by (simp add: findById_replaceById)
  show ?thesis
    using f1 f2 f3 by (auto simp: Let_def typed look)
qed

theorem put_update_replaces_three_fields_witness:
  "reachable example_env \<and> castObjectId ''000000000000000000000000'' = Some 0 \<and>
   findById 0 (store example_sys) = Some example_task \<and>
   castDate example_env (JStr ''2025-01-01'') = Inr (Some 1735689600000) \<and>
   put_update example_env ''000000000000000000000000''
       [''title'' \<mapsto> JStr ''C'', ''description'' \<mapsto> JStr ''D'', ''dueDate'' \<mapsto> JStr ''2025-01-01'',
        ''completed'' \<mapsto> JBool True]
       example_sys =
     (Sent \<lparr>status = 200,
            json = TaskMessage
              \<lparr>oid = 0, title = Some ''C'', description = Some ''D'', dueDate = Some 1735689600000,
               dateCreated = Some 1735000000000, completed = Some False\<rparr>
              ''Task updated successfully!''\<rparr>,
      \<lparr>store = [\<lparr>oid = 0, title = Some ''C'', description = Some ''D'', dueDate = Some 1735689600000,
                  dateCreated = Some 1735000000000, completed = Some False\<rparr>],
       oid_counter = 1\<rparr>)"
proof -
  let ?b = "[''title'' \<mapsto> JStr ''C'', ''description'' \<mapsto> JStr ''D'', ''dueDate'' \<mapsto> JStr ''2025-01-01'',
             ''completed'' \<mapsto> JBool True]"
  let ?t' = "example_task\<lparr>title := Some ''C'', description := Some ''D'', dueDate := Some 1735689600000\<rparr>"
  have h1: "reachable example_env" by (simp add: example_env_def)
  have h2: "castObjectId ''000000000000000000000000'' = Some 0"
    by (simp add: castObjectId_def hex_digit_def)
  have h3: "findById 0 (store example_sys) = Some example_task"
    by (simp add: example_sys_def example_task_def)
  have h4: "?b ''title'' = Some (JStr ''C'')" "?b ''description'' = Some (JStr ''D'')"
    "?b ''dueDate'' = Some (JStr ''2025-01-01'')"
    by simp_all
  have h5: "castDate example_env (JStr ''2025-01-01'') = Inr (Some 1735689600000)"
    by (simp add: example_env_def)
  from put_update_replaces_three_fields
    [of example_env "''000000000000000000000000''" ?b example_sys 0 example_task "''C''" "''D''"
        "JStr ''2025-01-01''" 1735689600000]
    h1 h2 h3 h4 h5
  have "put_update example_env ''000000000000000000000000'' ?b example_sys =
          (Sent \<lparr>status = 200, json = TaskMessage ?t' ''Task updated successfully!''\<rparr>,
           example_sys\<lparr>store := replaceById 0 ?t' (store example_sys)\<rparr>)"
    unfolding Let_def by blast
  then show ?thesis
    using h1 h2 h3 h5 by (simp add: example_sys_def example_task_def)
qed

text \<open>
  Claim C3. When the query reaches the database, listing with \<^verbatim>\<open>sortBy=dueDate\<close> answers 200
  with all stored tasks in an order that is non-decreasing in \<open>dueDate\<close>, and with
  \<^verbatim>\<open>sortBy=dateCreated\<close> likewise for \<open>dateCreated\<close>. Three tasks created one after the
  other in an empty collection, at clock readings that do not decrease, are listed by
  \<^verbatim>\<open>dateCreated\<close> in the order of their creation.
\<close>

theorem get_tasks_sorted:
  assumes "reachable e"
  shows "(\<exists>ts. get_tasks e (Some ''dueDate'') s = (Sent \<lparr>status = 200, json = Tasks ts\<rparr>, s) \<and>
              mset ts = mset (store s) \<and> sorted (map dueDate ts)) \<and>
         (\<exists>ts. get_tasks e (Some ''dateCreated'') s = (Sent \<lparr>status = 200, json = Tasks ts\<rparr>, s) \<and>
              mset ts = mset (store s) \<and> sorted (map dateCreated ts)) \<and>
         (store s0 = [] \<and>
          post_todo e1 b1 s0 = (Sent \<lparr>status = 200, json = TaskMessage c1 m1\<rparr>, s1) \<and>
          post_todo e2 b2 s1 = (Sent \<lparr>status = 200, json = TaskMessage c2 m2\<rparr>, s2) \<and>
          post_todo e3 b3 s2 = (Sent \<lparr>status = 200, json = TaskMessage c3 m3\<rparr>, s) \<and>
          now e1 \<le> now e2 \<and> now e2 \<le> now e3 \<longrightarrow>
            get_tasks e (Some ''dateCreated'') s =
              (Sent \<lparr>status = 200, json = Tasks [c1, c2, c3]\<rparr>, s))"
proof -
  have due: "get_tasks e (Some ''dueDate'') s =
               (Sent \<lparr>status = 200, json = Tasks (sort_key dueDate (store s))\<rparr>, s)"
    using assms by (simp add: get_tasks_def find_sort_def not_array_def)
  have cre: "get_tasks e (Some ''dateCreated'') s =
               (Sent \<lparr>status = 200, json = Tasks (sort_key dateCreated (store s))\<rparr>, s)"
    using assms by (simp add: get_tasks_def find_sort_def not_array_def)
  have scen: "sort_key dateCreated (store s) = [c1, c2, c3]"
    if e: "store s0 = []"
      and p1: "post_todo e1 b1 s0 = (Sent \<lparr>status = 200, json = TaskMessage c1 m1\<rparr>, s1)"
      and p2: "post_todo e2 b2 s1 = (Sent \<lparr>status = 200, json = TaskMessage c2 m2\<rparr>, s2)"
      and p3: "post_todo e3 b3 s2 = (Sent \<lparr>status = 200, json = TaskMessage c3 m3\<rparr>, s)"
      and le: "now e1 \<le> now e2" "now e2 \<le> now e3"
  proof -
    from post_todo_Sent [OF p1] e
    have c1: "c1 = created e1 b1 s0" and s1: "store s1 = [c1]" by simp_all
    from post_todo_Sent [OF p2] s1
    have c2: "c2 = created e2 b2 s1" and s2: "store s2 = [c1, c2]" by simp_all
    from post_todo_Sent [OF p3] s2
    have c3: "c3 = created e3 b3 s2" and s3: "store s = [c1, c2, c3]" by simp_all
    have "sorted (map dateCreated (store s))"
      using le by (simp add: s3 c1 c2 c3 created_fields)
    then show ?thesis
      by (simp add: sort_key_id_if_sorted s3)
  qed
  show ?thesis
    using scen by (simp add: due cre)
qed

theorem get_tasks_sorted_witness:
  "reachable example_env \<and> store empty_sys = [] \<and>
   post_todo (example_env\<lparr>now := 10\<rparr>) example_body empty_sys =
     (Sent \<lparr>status = 200, json = TaskMessage (example_task\<lparr>oid := 0, dateCreated := Some 10\<rparr>) ''Task created successfully''\<rparr>,
      \<lparr>store = [example_task\<lparr>oid := 0, dateCreated := Some 10\<rparr>], oid_counter = 1\<rparr>) \<and>
   post_todo (example_env\<lparr>now := 20\<rparr>) example_body
       \<lparr>store = [example_task\<lparr>oid := 0, dateCreated := Some 10\<rparr>], oid_counter = 1\<rparr> =
     (Sent \<lparr>status = 200, json = TaskMessage (example_task\<lparr>oid := 1, dateCreated := Some 20\<rparr>) ''Task created successfully''\<rparr>,
      \<lparr>store = [example_task\<lparr>oid := 0, dateCreated := Some 10\<rparr>, example_task\<lparr>oid := 1, dateCreated := Some 20\<rparr>],
       oid_counter = 2\<rparr>) \<and>
   post_todo (example_env\<lparr>now := 20\<rparr>) example_body
       \<lparr>store = [example_task\<lparr>oid := 0, dateCreated := Some 10\<rparr>, example_task\<lparr>oid := 1, dateCreated := Some 20\<rparr>],
        oid_counter = 2\<rparr> =
     (Sent \<lparr>status = 200, json = TaskMessage (example_task\<lparr>oid := 2, dateCreated := Some 20\<rparr>) ''Task created successfully''\<rparr>,
      \<lparr>store = [example_task\<lparr>oid := 0, dateCreated := Some 10\<rparr>, example_task\<lparr>oid := 1, dateCreated := Some 20\<rparr>,
                example_task\<lparr>oid := 2, dateCreated := Some 20\<rparr>],
       oid_counter = 3\<rparr>) \<and>
   get_tasks example_env (Some ''dateCreated'')
       \<lparr>store = [example_task\<lparr>oid := 0, dateCreated := Some 10\<rparr>, example_task\<lparr>oid := 1, dateCreated := Some 20\<rparr>,
                 example_task\<lparr>oid := 2, dateCreated := Some 20\<rparr>],
        oid_counter = 3\<rparr> =
     (Sent \<lparr>status = 200,
            json = Tasks [example_task\<lparr>oid := 0, dateCreated := Some 10\<rparr>, example_task\<lparr>oid := 1, dateCreated := Some 20\<rparr>,
                          example_task\<lparr>oid := 2, dateCreated := Some 20\<rparr>]\<rparr>,
      \<lparr>store = [example_task\<lparr>oid := 0, dateCreated := Some 10\<rparr>, example_task\<lparr>oid := 1, dateCreated := Some 20\<rparr>,
                example_task\<lparr>oid := 2, dateCreated := Some 20\<rparr>],
       oid_counter = 3\<rparr>)"
proof -
  let ?c1 = "example_task\<lparr>oid := 0, dateCreated := Some 10\<rparr>"
  let ?c2 = "example_task\<lparr>oid := 1, dateCreated := Some 20\<rparr>"
  let ?c3 = "example_task\<lparr>oid := 2, dateCreated := Some 20\<rparr>"
  let ?s1 = "\<lparr>store = [?c1], oid_counter = 1\<rparr>"
  let ?s2 = "\<lparr>store = [?c1, ?c2], oid_counter = 2\<rparr>"
  let ?s3 = "\<lparr>store = [?c1, ?c2, ?c3], oid_counter = 3\<rparr>"
  let ?m = "''Task created successfully''"
  have h0: "reachable example_env" by (simp add: example_env_def)
  have e: "store empty_sys = []" by (simp add: empty_sys_def)
  have p1: "post_todo (example_env\<lparr>now := 10\<rparr>) example_body empty_sys =
              (Sent \<lparr>status = 200, json = TaskMessage ?c1 ?m\<rparr>, ?s1)"
    using post_example_body [of empty_sys 10] by (simp add: empty_sys_def)
  have p2: "post_todo (example_env\<lparr>now := 20\<rparr>) example_body ?s1 =
              (Sent \<lparr>status = 200, json = TaskMessage ?c2 ?m\<rparr>, ?s2)"
    using post_example_body [of ?s1 20] by (simp add: example_task_def)
  have p3: "post_todo (example_env\<lparr>now := 20\<rparr>) example_body ?s2 =
              (Sent \<lparr>status = 200, json = TaskMessage ?c3 ?m\<rparr>, ?s3)"
    using post_example_body [of ?s2 20] by (simp add: example_task_def)
  have le: "now (example_env\<lparr>now := 10\<rparr>) \<le> now (example_env\<lparr>now := 20\<rparr>)"
    "now (example_env\<lparr>now := 20\<rparr>) \<le> now (example_env\<lparr>now := 20\<rparr>)"
    by simp_all
  from get_tasks_sorted [OF h0, of ?s3 empty_sys "example_env\<lparr>now := 10\<rparr>" example_body ?c1 ?m ?s1
      "example_env\<lparr>now := 20\<rparr>" example_body ?c2 ?m ?s2 "example_env\<lparr>now := 20\<rparr>" example_body ?c3 ?m]
    e p1 p2 p3 le
  have "get_tasks example_env (Some ''dateCreated'') ?s3 =
          (Sent \<lparr>status = 200, json = Tasks [?c1, ?c2, ?c3]\<rparr>, ?s3)"
    by blast
  with h0 e p1 p2 p3 show ?thesis
    by blast
qed

text \<open>
  Claim C4. Every create request that is answered carries status 200 and the stored task:
  its id is the one the generator assigned, which no stored task had, and ids stay distinct;
  \<open>dateCreated\<close> is the clock reading of the request and \<open>completed\<close> is \<open>False\<close>; the three
  fields of the body are populated, with the strings and the date the body gave.
\<close>

theorem post_todo_success_defaults:
  assumes "wf_sys s" and "post_todo e body s = (Sent r, s')"
  shows "\<exists>t. r = \<lparr>status = 200, json = TaskMessage t ''Task created successfully''\<rparr> \<and>
             store s' = store s @ [t] \<and>
             oid t = oid_counter s \<and> oid t \<notin> set (map oid (store s)) \<and> wf_sys s' \<and>
             dateCreated t = Some (now e) \<and> completed t = Some False \<and>
             title t \<notin> {None, Some []} \<and> description t \<notin> {None, Some []} \<and> dueDate t \<noteq> None \<and>
             (\<forall>ti. body ''title'' = Some (JStr ti) \<longrightarrow> title t = Some ti) \<and>
             (\<forall>de. body ''description'' = Some (JStr de) \<longrightarrow> description t = Some de) \<and>
             (\<forall>dv. body ''dueDate'' = Some dv \<longrightarrow> castDate e dv = Inr (dueDate t))"
proof -
  let ?t = "created e body s"
  from post_todo_Sent [OF assms(2)]
  have c: "creatable e body s"
    and r: "r = \<lparr>status = 200, json = TaskMessage ?t ''Task created successfully''\<rparr>"
    and s': "s' = \<lparr>store = store s @ [?t], oid_counter = Suc (oid_counter s)\<rparr>"
    by simp_all
  have wf': "wf_sys s'"
    unfolding s' using assms(1) by (rule wf_sys_created)
  have fresh: "oid ?t \<notin> set (map oid (store s))"
    using wf_sys_fresh [OF assms(1)] by (simp add: created_fields)
  have st: "store s' = store s @ [?t]"
    by (simp add: s')
  show ?thesis
    using r st wf' fresh creatable_populated [OF c] created_dueDate [OF c]
    by (intro exI [of _ ?t]) (simp add: created_fields created_typed)
qed

theorem post_todo_success_defaults_witness:
  "wf_sys empty_sys \<and>
   post_todo example_env example_body empty_sys =
     (Sent \<lparr>status = 200, json = TaskMessage example_task ''Task created successfully''\<rparr>, example_sys) \<and>
   oid example_task \<notin> set (map oid (store empty_sys)) \<and>
   dateCreated example_task = Some (now example_env) \<and> completed example_task = Some False \<and>
   wf_sys example_sys"
proof -
  have h0: "wf_sys empty_sys" by (simp add: wf_sys_def empty_sys_def)
  have c: "creatable example_env example_body empty_sys"
    by (simp add: creatable_def example_env_def example_body_def empty_sys_def set_path_def
        required_string_def required_def)
  have t: "created example_env example_body empty_sys = example_task"
    by (simp add: created_def example_env_def example_body_def empty_sys_def set_path_def
        path_val_def example_task_def)
  have h1: "post_todo example_env example_body empty_sys =
     (Sent \<lparr>status = 200, json = TaskMessage example_task ''Task created successfully''\<rparr>, example_sys)"
    using c t by (simp add: post_todo_eq example_sys_def empty_sys_def)
  show ?thesis
    using h0 h1 post_todo_success_defaults [OF h0 h1] by auto
qed

text \<open>
  Claim C5, amended. When no stored task carries the id of the request, set-completion (both
  routes), update and delete leave the state unchanged. They answer 404 when the id is a
  well-formed ObjectId, the values of the body can be cast and the database is reached, and
  500 otherwise. After a successful delete, in a state with distinct ids, no stored task
  carries the deleted id, so this applies to every later request with that id.
\<close>

theorem absent_id_not_found:
  "((\<forall>i. castObjectId ident = Some i \<longrightarrow> findById i (store s) = None) \<longrightarrow>
      snd (patch_complete e ident body s) = s \<and> snd (patch_notComplete e ident body s) = s \<and>
      snd (put_update e ident body s) = s \<and> snd (delete_task e ident s) = s \<and>
      status_of (fst (delete_task e ident s)) =
        Some (if castObjectId ident \<noteq> None \<and> reachable e then 404 else 500) \<and>
      status_of (fst (patch_complete e ident body s)) =
        Some (if castObjectId ident \<noteq> None \<and> castable e (restrict_map body {''completed''}) \<and> reachable e
              then 404 else 500) \<and>
      status_of (fst (patch_notComplete e ident body s)) =
        Some (if castObjectId ident \<noteq> None \<and> castable e (restrict_map body {''completed''}) \<and> reachable e
              then 404 else 500) \<and>
      status_of (fst (put_update e ident body s)) =
        Some (if castObjectId ident \<noteq> None \<and>
                 castable e (restrict_map body {''title'', ''description'', ''dueDate''}) \<and> reachable e
              then 404 else 500)) \<and>
   (wf_sys s0 \<and> delete_task e0 ident s0 = (Sent r, s) \<and> status r = 200 \<longrightarrow>
      (\<forall>i. castObjectId ident = Some i \<longrightarrow> findById i (store s) = None))"
proof -
  have st: "status_of (fst (delete_task e ident s)) =
        Some (if castObjectId ident \<noteq> None \<and> reachable e then 404 else 500) \<and>
      status_of (fst (patch_complete e ident body s)) =
        Some (if castObjectId ident \<noteq> None \<and> castable e (restrict_map body {''completed''}) \<and> reachable e
              then 404 else 500) \<and>
      status_of (fst (patch_notComplete e ident body s)) =
        Some (if castObjectId ident \<noteq> None \<and> castable e (restrict_map body {''completed''}) \<and> reachable e
              then 404 else 500) \<and>
      status_of (fst (put_update e ident body s)) =
        Some (if castObjectId ident \<noteq> None \<and>
                 castable e (restrict_map body {''title'', ''description'', ''dueDate''}) \<and> reachable e
              then 404 else 500)"
    if "\<forall>i. castObjectId ident = Some i \<longrightarrow> findById i (store s) = None"
    using that
    by (auto simp: delete_task_def findByIdAndDelete_def patch_complete_def patch_notComplete_def
        put_update_def findByIdAndUpdate_def castable_def status_of_def catch_error_bound
        split: sum.splits option.splits)
  have gone: "findById i (store s) = None"
    if "wf_sys s0" and "delete_task e0 ident s0 = (Sent r, s)" and "status r = 200"
      and "castObjectId ident = Some i" for i
    using delete_task_Sent_200 [OF that(2,3)] that(1,4)
    by (auto simp: wf_sys_def findById_removeById_same)
  show ?thesis
    using st gone
    by (simp add: patch_complete_absent patch_notComplete_absent put_update_absent delete_task_absent)
qed

theorem absent_id_not_found_witness:
  "wf_sys example_sys \<and>
   delete_task example_env ''000000000000000000000000'' example_sys =
     (Sent \<lparr>status = 200, json = TaskMessage example_task ''Task deleted successfully!''\<rparr>,
      \<lparr>store = [], oid_counter = 1\<rparr>) \<and>
   reachable example_env \<and> castObjectId ''000000000000000000000000'' = Some 0 \<and>
   castable example_env (restrict_map [''completed'' \<mapsto> JBool True] {''completed''}) \<and>
   castable example_env (restrict_map [''completed'' \<mapsto> JBool True] {''title'', ''description'', ''dueDate''}) \<and>
   status_of (fst (delete_task example_env ''000000000000000000000000'' \<lparr>store = [], oid_counter = 1\<rparr>)) = Some 404 \<and>
   snd (delete_task example_env ''000000000000000000000000'' \<lparr>store = [], oid_counter = 1\<rparr>) =
     \<lparr>store = [], oid_counter = 1\<rparr> \<and>
   status_of (fst (patch_complete example_env ''000000000000000000000000'' [''completed'' \<mapsto> JBool True]
     \<lparr>store = [], oid_counter = 1\<rparr>)) = Some 404 \<and>
   status_of (fst (patch_notComplete example_env ''000000000000000000000000'' [''completed'' \<mapsto> JBool True]
     \<lparr>store = [], oid_counter = 1\<rparr>)) = Some 404 \<and>
   status_of (fst (put_update example_env ''000000000000000000000000'' [''completed'' \<mapsto> JBool True]
     \<lparr>store = [], oid_counter = 1\<rparr>)) = Some 404"
proof -
  let ?id = "''000000000000000000000000''"
  let ?b = "[''completed'' \<mapsto> JBool True]"
  let ?s = "\<lparr>store = [], oid_counter = 1\<rparr>"
  let ?r = "\<lparr>status = 200, json = TaskMessage example_task ''Task deleted successfully!''\<rparr>"
  have h0: "wf_sys example_sys" by (simp add: wf_sys_def example_sys_def example_task_def)
  have h1: "reachable example_env" by (simp add: example_env_def)
  have h2: "castObjectId ?id = Some 0" by (simp add: castObjectId_def hex_digit_def)
  have h3: "delete_task example_env ?id example_sys = (Sent ?r, ?s)"
    using h1 h2 by (simp add: delete_task_def findByIdAndDelete_def example_sys_def example_task_def)
  have h4: "status ?r = 200" by simp
  have h5: "castable example_env (restrict_map ?b {''completed''})"
    unfolding castable_def castUpdate_completed by simp
  have h6: "castable example_env (restrict_map ?b {''title'', ''description'', ''dueDate''})"
    unfolding castable_def castUpdate_def taskData_paths by (simp add: set_field_def then_set_def)
  have h7: "castObjectId ?id \<noteq> None" using h2 by simp
  note T = absent_id_not_found [of ?id ?s example_env ?b example_sys example_env ?r]
  from T h0 h3 h4 have a: "\<forall>i. castObjectId ?id = Some i \<longrightarrow> findById i (store ?s) = None"
    by blast
  from T a have
    "snd (delete_task example_env ?id ?s) = ?s"
    "status_of (fst (delete_task example_env ?id ?s)) =
       Some (if castObjectId ?id \<noteq> None \<and> reachable example_env then 404 else 500)"
    "status_of (fst (patch_complete example_env ?id ?b ?s)) =
       Some (if castObjectId ?id \<noteq> None \<and> castable example_env (restrict_map ?b {''completed''}) \<and>
              reachable example_env then 404 else 500)"
    "status_of (fst (patch_notComplete example_env ?id ?b ?s)) =
       Some (if castObjectId ?id \<noteq> None \<and> castable example_env (restrict_map ?b {''completed''}) \<and>
              reachable example_env then 404 else 500)"
    "status_of (fst (put_update example_env ?id ?b ?s)) =
       Some (if castObjectId ?id \<noteq> None \<and>
              castable example_env (restrict_map ?b {''title'', ''description'', ''dueDate''}) \<and>
              reachable example_env then 404 else 500)"
    by blast+
  then show ?thesis
    using h0 h1 h3 h5 h6 h7 by (simp only: h2 if_True simp_thms)
qed

text \<open>
  The claim C5 as stated fails for an id that is not a well-formed ObjectId: no stored task
  carries \<^verbatim>\<open>abc\<close>, and delete, set-completion and update answer 500, not 404.
\<close>

theorem absent_id_counterexample:
  "castObjectId ''abc'' = None \<and>
   delete_task example_env ''abc'' example_sys =
     (Sent \<lparr>status = 500, json = Message ''Error deleting the task!''\<rparr>, example_sys) \<and>
   patch_complete example_env ''abc'' [''completed'' \<mapsto> JBool True] example_sys =
     (Sent \<lparr>status = 500, json = Message ''Error completing the task!''\<rparr>, example_sys) \<and>
   put_update example_env ''abc'' example_body example_sys =
     (Sent \<lparr>status = 500, json = Message ''Error updating the task!''\<rparr>, example_sys)"
  by (simp add: castObjectId_def delete_task_def findByIdAndDelete_def patch_complete_def
      put_update_def findByIdAndUpdate_def catch_error_bound)

text \<open>
  Claim C6. Deleting an existing task answers 200 with the task as it was stored and removes
  it: afterwards no document carries its id, the collection is the former one without that
  document, and every other id finds what it found before.
\<close>

theorem delete_existing_task:
  assumes "wf_sys s" and "reachable e" and "castObjectId ident = Some i"
    and "findById i (store s) = Some t"
  shows "delete_task e ident s =
           (Sent \<lparr>status = 200, json = TaskMessage t ''Task deleted successfully!''\<rparr>,
            s\<lparr>store := removeById i (store s)\<rparr>) \<and>
         findById i (removeById i (store s)) = None \<and>
         mset (store s) = add_mset t (mset (removeById i (store s))) \<and>
         (\<forall>j. j \<noteq> i \<longrightarrow> findById j (removeById i (store s)) = findById j (store s))"
  using assms
  by (simp add: delete_task_def findByIdAndDelete_def wf_sys_def findById_removeById_same
      findById_removeById_other mset_removeById [symmetric])

theorem delete_existing_task_witness:
  "wf_sys example_sys \<and> reachable example_env \<and>
   castObjectId ''000000000000000000000000'' = Some 0 \<and>
   findById 0 (store example_sys) = Some example_task \<and>
   delete_task example_env ''000000000000000000000000'' example_sys =
     (Sent \<lparr>status = 200, json = TaskMessage example_task ''Task deleted successfully!''\<rparr>,
      \<lparr>store = [], oid_counter = 1\<rparr>)"
proof -
  have h0: "wf_sys example_sys" by (simp add: wf_sys_def example_sys_def example_task_def)
  have h1: "reachable example_env" by (simp add: example_env_def)
  have h2: "castObjectId ''000000000000000000000000'' = Some 0"
    by (simp add: castObjectId_def hex_digit_def)
  have h3: "findById 0 (store example_sys) = Some example_task"
    by (simp add: example_sys_def example_task_def)
  have r: "removeById 0 (store example_sys) = []"
    by (simp add: example_sys_def example_task_def)
  show ?thesis
    using h0 h1 h2 h3 r delete_existing_task [OF h0 h1 h2 h3]
    by (simp add: example_sys_def)
qed

text \<open>
  Claim C7. The routes \<^verbatim>\<open>complete/:id\<close> and \<^verbatim>\<open>notComplete/:id\<close> agree on every request:
  same resulting state, same status (so the same occasions for 404), same task in the
  response; and on an existing task with a boolean \<^verbatim>\<open>completed\<close> in the body both store and
  return the task with \<open>completed\<close> set to that boolean.
\<close>

theorem complete_notComplete_identical:
  "snd (patch_complete e ident body s) = snd (patch_notComplete e ident body s) \<and>
   status_of (fst (patch_complete e ident body s)) = status_of (fst (patch_notComplete e ident body s)) \<and>
   task_of (fst (patch_complete e ident body s)) = task_of (fst (patch_notComplete e ident body s)) \<and>
   (reachable e \<and> castObjectId ident = Some i \<and> findById i (store s) = Some t \<and>
    body ''completed'' = Some (JBool b) \<longrightarrow>
      task_of (fst (patch_complete e ident body s)) = Some (t\<lparr>completed := Some b\<rparr>) \<and>
      snd (patch_complete e ident body s) = s\<lparr>store := replaceById i (t\<lparr>completed := Some b\<rparr>) (store s)\<rparr>)"
  by (simp add: patch_complete_def patch_notComplete_def catch_error_bound status_of_def task_of_def
      findByIdAndUpdate_def castUpdate_completed
      split: prod.splits sum.splits option.splits)

theorem complete_notComplete_identical_witness:
  "reachable example_env \<and> castObjectId ''000000000000000000000000'' = Some 0 \<and>
   findById 0 (store example_sys) = Some example_task \<and>
   task_of (fst (patch_complete example_env ''000000000000000000000000'' [''completed'' \<mapsto> JBool True] example_sys)) =
     Some (example_task\<lparr>completed := Some True\<rparr>) \<and>
   task_of (fst (patch_notComplete example_env ''000000000000000000000000'' [''completed'' \<mapsto> JBool True] example_sys)) =
     Some (example_task\<lparr>completed := Some True\<rparr>) \<and>
   snd (patch_notComplete example_env ''000000000000000000000000'' [''completed'' \<mapsto> JBool True] example_sys) =
     \<lparr>store = [example_task\<lparr>completed := Some True\<rparr>], oid_counter = 1\<rparr>"
proof -
  let ?b = "[''completed'' \<mapsto> JBool True]"
  let ?c = "patch_complete example_env ''000000000000000000000000'' ?b example_sys"
  let ?n = "patch_notComplete example_env ''000000000000000000000000'' ?b example_sys"
  have h1: "reachable example_env" by (simp add: example_env_def)
  have h2: "castObjectId ''000000000000000000000000'' = Some 0"
    by (simp add: castObjectId_def hex_digit_def)
  have h3: "findById 0 (store example_sys) = Some example_task"
    by (simp add: example_sys_def example_task_def)
  have h4: "?b ''completed'' = Some (JBool True)" by simp
  have r: "example_sys\<lparr>store := replaceById 0 (example_task\<lparr>completed := Some True\<rparr>) (store example_sys)\<rparr> =
             \<lparr>store = [example_task\<lparr>completed := Some True\<rparr>], oid_counter = 1\<rparr>"
    by (simp add: example_sys_def example_task_def)
  note T = complete_notComplete_identical
        [of example_env "''000000000000000000000000''" ?b example_sys 0 example_task True]
  from T have a: "snd ?c = snd ?n" and b: "task_of (fst ?c) = task_of (fst ?n)"
    by blast+
  from T h1 h2 h3 h4 have c: "task_of (fst ?c) = Some (example_task\<lparr>completed := Some True\<rparr>)"
    and d: "snd ?c = example_sys\<lparr>store := replaceById 0 (example_task\<lparr>completed := Some True\<rparr>) (store example_sys)\<rparr>"
    by blast+
  from a b c d r h1 h2 h3 show ?thesis
    by metis
qed

text \<open>
  Claim C8. Listing never answers 404, whatever the query string and the state; on an empty
  collection that the query reaches it answers 200 with the empty array.
\<close>

theorem get_tasks_never_404:
  "status_of (fst (get_tasks e sortBy s)) \<noteq> Some 404 \<and>
   (reachable e \<and> store s = [] \<longrightarrow>
      get_tasks e sortBy s = (Sent \<lparr>status = 200, json = Tasks []\<rparr>, s))"
  by (simp add: get_tasks_def find_sort_def not_array_def catch_err_bound status_of_def Let_def)

theorem get_tasks_never_404_witness:
  "reachable example_env \<and> store empty_sys = [] \<and>
   get_tasks example_env None empty_sys = (Sent \<lparr>status = 200, json = Tasks []\<rparr>, empty_sys)"
  using get_tasks_never_404 [of example_env None empty_sys]
  by (simp add: example_env_def empty_sys_def)

text \<open>
  Claim C9. Two create requests whose bodies agree on title, description and dueDate have the
  same outcome and the same resulting state, whatever else the bodies contain. The task of a
  successful create has the generator's id, the clock reading as \<open>dateCreated\<close> and
  \<open>completed = False\<close>. In different well-formed states and at different clock readings
  the two requests still have the same status and create tasks that differ at most in
  \<open>oid\<close> and \<open>dateCreated\<close>.
\<close>

theorem post_todo_ignores_other_fields:
  assumes "b1 ''title'' = b2 ''title''" and "b1 ''description'' = b2 ''description''"
    and "b1 ''dueDate'' = b2 ''dueDate''"
  shows "post_todo e b1 s = post_todo e b2 s \<and>
         (\<forall>t. task_of (fst (post_todo e b1 s)) = Some t \<longrightarrow>
              oid t = oid_counter s \<and> dateCreated t = Some (now e) \<and> completed t = Some False) \<and>
         (wf_sys s1 \<and> wf_sys s2 \<and> reachable e1 = reachable e2 \<and>
          num_toString e1 = num_toString e2 \<and> date_of_string e1 = date_of_string e2 \<longrightarrow>
            status_of (fst (post_todo e1 b1 s1)) = status_of (fst (post_todo e2 b2 s2)) \<and>
            map_option (\<lambda>t. t\<lparr>oid := 0, dateCreated := None\<rparr>) (task_of (fst (post_todo e1 b1 s1))) =
            map_option (\<lambda>t. t\<lparr>oid := 0, dateCreated := None\<rparr>) (task_of (fst (post_todo e2 b2 s2))))"
proof -
  have td: "restrict_map b1 {''title'', ''description'', ''dueDate''} =
            restrict_map b2 {''title'', ''description'', ''dueDate''}"
    using assms by (auto simp: restrict_map_def fun_eq_iff)
  have same: "post_todo e b1 s = post_todo e b2 s"
    by (simp add: post_todo_def td)
  have dflt: "oid t = oid_counter s \<and> dateCreated t = Some (now e) \<and> completed t = Some False"
    if "task_of (fst (post_todo e b1 s)) = Some t" for t
    using that by (auto simp: post_todo_eq task_of_def created_fields split: if_splits)
  have upto: "status_of (fst (post_todo e1 b1 s1)) = status_of (fst (post_todo e2 b2 s2)) \<and>
            map_option (\<lambda>t. t\<lparr>oid := 0, dateCreated := None\<rparr>) (task_of (fst (post_todo e1 b1 s1))) =
            map_option (\<lambda>t. t\<lparr>oid := 0, dateCreated := None\<rparr>) (task_of (fst (post_todo e2 b2 s2)))"
    if w: "wf_sys s1" "wf_sys s2" and r: "reachable e1 = reachable e2"
      and n: "num_toString e1 = num_toString e2" and d: "date_of_string e1 = date_of_string e2"
  proof -
    have cs: "castString e1 = castString e2" and cd: "castDate e1 = castDate e2"
      using n d by (auto simp: fun_eq_iff castString_cong castDate_cong)
    have c: "creatable e1 b1 s1 = creatable e2 b2 s2"
      using wf_sys_fresh [OF w(1)] wf_sys_fresh [OF w(2)] r assms
      by (simp add: creatable_def cs cd)
    have t: "(created e1 b1 s1)\<lparr>oid := 0, dateCreated := None\<rparr> = (created e2 b2 s2)\<lparr>oid := 0, dateCreated := None\<rparr>"
      using assms by (simp add: created_def cs cd)
    show ?thesis
      using c t by (simp add: post_todo_eq status_of_def task_of_def)
  qed
  show ?thesis
    using same dflt upto by blast
qed

theorem post_todo_ignores_other_fields_witness:
  "post_todo example_env
     (example_body(''completed'' \<mapsto> JBool True, ''dateCreated'' \<mapsto> JNum 0, ''_id'' \<mapsto> JStr ''ffffffffffffffffffffffff''))
     empty_sys =
     (Sent \<lparr>status = 200, json = TaskMessage example_task ''Task created successfully''\<rparr>, example_sys) \<and>
   oid example_task = oid_counter empty_sys \<and> dateCreated example_task = Some (now example_env) \<and>
   completed example_task = Some False \<and>
   wf_sys empty_sys \<and> wf_sys example_sys \<and>
   task_of (fst (post_todo (example_env\<lparr>now := 5\<rparr>)
     (example_body(''completed'' \<mapsto> JBool True, ''dateCreated'' \<mapsto> JNum 0, ''_id'' \<mapsto> JStr ''ffffffffffffffffffffffff''))
     example_sys)) = Some (example_task\<lparr>oid := 1, dateCreated := Some 5\<rparr>)"
proof -
  let ?b2 = "example_body(''completed'' \<mapsto> JBool True, ''dateCreated'' \<mapsto> JNum 0, ''_id'' \<mapsto> JStr ''ffffffffffffffffffffffff'')"
  let ?e2 = "example_env\<lparr>now := 5\<rparr>"
  have h: "example_body ''title'' = ?b2 ''title''" "example_body ''description'' = ?b2 ''description''"
    "example_body ''dueDate'' = ?b2 ''dueDate''"
    by simp_all
  have w: "wf_sys empty_sys" "wf_sys example_sys"
    by (simp_all add: wf_sys_def empty_sys_def example_sys_def example_task_def)
  have p: "post_todo example_env example_body empty_sys =
     (Sent \<lparr>status = 200, json = TaskMessage example_task ''Task created successfully''\<rparr>, example_sys)"
    using post_example_body [of empty_sys "now example_env"]
    by (simp add: empty_sys_def example_sys_def example_task_def example_env_def)
  have q: "task_of (fst (post_todo ?e2 example_body example_sys)) =
             Some (example_task\<lparr>oid := 1, dateCreated := Some 5\<rparr>)"
    using post_example_body [of example_sys 5]
    by (simp add: example_sys_def example_task_def task_of_def)
  note T = post_todo_ignores_other_fields [OF h, of example_env empty_sys]
  note U = post_todo_ignores_other_fields [OF h, of ?e2 example_sys]
  from T have e: "post_todo example_env example_body empty_sys = post_todo example_env ?b2 empty_sys"
    by blast
  from U have e2: "post_todo ?e2 example_body example_sys = post_todo ?e2 ?b2 example_sys"
    by blast
  have "task_of (fst (post_todo example_env example_body empty_sys)) = Some example_task"
    by (simp add: p task_of_def)
  with T have "oid example_task = oid_counter empty_sys \<and> dateCreated example_task = Some (now example_env) \<and>
     completed example_task = Some False"
    by blast
  with e e2 p q w show ?thesis
    by simp
qed

text \<open>
  Claim C10. For an existing task, a set-completion request on either route whose body has
  no \<^verbatim>\<open>completed\<close> key answers 200 with the task as it was and leaves the state as it was.
\<close>

theorem patch_without_completed_unchanged:
  assumes "reachable e" and "castObjectId ident = Some i" and "findById i (store s) = Some t"
    and "body ''completed'' = None"
  shows "patch_complete e ident body s =
           (Sent \<lparr>status = 200, json = TaskMessage t (''Task set to '' @ [CHR 0x27] @ ''complete.'')\<rparr>, s) \<and>
         patch_notComplete e ident body s =
           (Sent \<lparr>status = 200, json = TaskMessage t (''Task set to '' @ [CHR 0x27] @ '' not complete.'')\<rparr>, s)"
  using assms
  by (simp add: patch_complete_def patch_notComplete_def findByIdAndUpdate_def castUpdate_completed
      replaceById_same)

theorem patch_without_completed_unchanged_witness:
  "reachable example_env \<and> castObjectId ''000000000000000000000000'' = Some 0 \<and>
   findById 0 (store example_sys) = Some example_task \<and>
   patch_complete example_env ''000000000000000000000000'' Map.empty example_sys =
     (Sent \<lparr>status = 200, json = TaskMessage example_task ''Task set to 'complete.''\<rparr>, example_sys) \<and>
   patch_notComplete example_env ''000000000000000000000000'' Map.empty example_sys =
     (Sent \<lparr>status = 200, json = TaskMessage example_task ''Task set to ' not complete.''\<rparr>, example_sys)"
proof -
  have h1: "reachable example_env" by (simp add: example_env_def)
  have h2: "castObjectId ''000000000000000000000000'' = Some 0"
    by (simp add: castObjectId_def hex_digit_def)
  have h3: "findById 0 (store example_sys) = Some example_task"
    by (simp add: example_sys_def example_task_def)
  have h4: "(Map.empty :: jsobj) ''completed'' = None" by simp
  show ?thesis
    using h1 h2 h3 patch_without_completed_unchanged [OF h1 h2 h3 h4] by simp
qed

end
